theory Spec2Isabelle
  imports Complex_Main "HOL-Library.AList"
begin

section \<open>Work-order controller of the repair-shop CRM\<close>

text \<open>
  A shallow embedding of \<^verbatim>\<open>src/server/controllers/workOrderController.js\<close>.
  Each handler becomes a function from the environment, the database and the request
  to an \<open>outcome\<close>: the response, the database afterwards and the trace of the
  side effects in the order the handler performs them.

  Conventions of the embedding:
  \<^item> document ids are strings (well-formed ObjectIds); a collection is an association
    list from ids to documents, \<open>findById\<close> is \<open>map_of\<close>, a save is \<open>AList.update\<close>;
  \<^item> a JavaScript number is an exact rational (rounding of doubles is not modelled);
  \<^item> a field of the request body that may be absent is an \<open>option\<close>; JavaScript
    truthiness is written out (\<open>truthyStr\<close>, \<open>truthyNum\<close>);
  \<^item> \<open>next(new AppError(msg, code))\<close> is the response \<open>Failure\<close>;
  \<^item> the database layer itself does not fail: schema validation and connection
    errors live outside the controller and are not modelled.
\<close>

subsection \<open>Documents\<close>

type_synonym oid = string
type_synonym number = rat
type_synonym date = int

record part =
  part_name :: string
  price :: number
  quantity :: number

record labor =
  labor_description :: string
  hours :: number
  rate :: number

record service =
  description :: string

text \<open>
  The value held by the \<open>services\<close> field while a handler runs: an array of service
  lines, a string (the handlers accept a JSON string), or any other value that
  \<open>JSON.parse\<close> may deliver.
\<close>

datatype services_val = SArray "service list" | SStr string | SNonArray

datatype mileage_val = MNum number | MStr string

record customer_doc =
  c_name :: string
  c_phone :: "string option"
  c_email :: "string option"
  c_communicationPreference :: "string option"

record mileage_entry =
  m_date :: date
  m_mileage :: number
  m_source :: string

record vehicle_doc =
  v_customer :: oid
  serviceHistory :: "oid list"
  mileageHistory :: "mileage_entry list"
  v_currentMileage :: "number option"

record appointment_doc =
  a_technician :: "oid option"

record workOrder_doc =
  wo_customer :: oid
  wo_vehicle :: oid
  wo_date :: date
  wo_status :: string
  wo_services :: services_val
  wo_serviceRequested :: string
  wo_parts :: "part list"
  wo_labor :: "labor list"
  wo_totalEstimate :: number
  wo_totalActual :: number
  wo_currentMileage :: "mileage_val option"
  wo_appointmentId :: "oid option"
  wo_assignedTechnician :: "oid option"
  wo_diagnosticNotes :: string

text \<open>The request body of create and update (\<open>workOrderData\<close>): every field optional.\<close>

record body =
  b_customer :: "oid option"
  b_vehicle :: "oid option"
  b_date :: "date option"
  b_status :: "string option"
  b_services :: "services_val option"
  b_serviceRequested :: "string option"
  b_parts :: "part list option"
  b_labor :: "labor list option"
  b_totalEstimate :: "number option"
  b_totalActual :: "number option"
  b_currentMileage :: "mileage_val option"
  b_appointmentId :: "oid option"
  b_assignedTechnician :: "oid option"
  b_diagnosticNotes :: "string option"

record database =
  workOrders :: "(oid \<times> workOrder_doc) list"
  vehicles :: "(oid \<times> vehicle_doc) list"
  customers :: "(oid \<times> customer_doc) list"
  appointments :: "(oid \<times> appointment_doc) list"
  technicians :: "oid list"

text \<open>
  What the handlers take from outside the controller: the clock, the id the database
  gives the next created document, whether the call of
  \<open>twilioService.sendStatusUpdate\<close> throws, the built-ins \<open>parseFloat\<close> (on strings;
  \<open>None\<close> is NaN), \<open>JSON.parse\<close> (\<open>None\<close> is a thrown SyntaxError) and
  \<open>Date.prototype.toDateString\<close>, and the defaults of the work-order schema
  (\<^verbatim>\<open>models/WorkOrder.js\<close> is not part of the sources).
\<close>

record env =
  now :: date
  newId :: oid
  smsThrows :: bool
  parseFloatStr :: "string \<Rightarrow> number option"
  JSON_parse :: "string \<Rightarrow> services_val option"
  toDateString :: "date \<Rightarrow> string"
  schemaDefaults :: workOrder_doc

subsection \<open>Responses and effects\<close>

record appError =
  statusCode :: nat
  message :: string

datatype response =
    Success nat oid workOrder_doc
  | Failure appError

datatype event =
    StatusAssigned string
  | TotalRecalculated number
  | WorkOrderPersisted oid
  | VehiclePersisted oid
  | MileageSynced oid
  | SmsAttempted string
  | SmsFailureLogged

record outcome =
  response :: response
  db :: database
  trace :: "event list"

definition AppError :: "string \<Rightarrow> nat \<Rightarrow> appError" where
  "AppError msg code = \<lparr>statusCode = code, message = msg\<rparr>"

definition fail :: "database \<Rightarrow> string \<Rightarrow> nat \<Rightarrow> outcome" where
  "fail d msg code = \<lparr>response = Failure (AppError msg code), db = d, trace = []\<rparr>"

fun httpStatus :: "response \<Rightarrow> nat" where
  "httpStatus (Success code _ _) = code"
| "httpStatus (Failure e) = statusCode e"

subsection \<open>JavaScript values\<close>

fun truthyStr :: "string option \<Rightarrow> bool" where
  "truthyStr None = False"
| "truthyStr (Some s) = (s \<noteq> [])"

fun truthyNum :: "number option \<Rightarrow> bool" where
  "truthyNum None = False"
| "truthyNum (Some n) = (n \<noteq> 0)"

subsection \<open>Totals\<close>

text \<open>
  \<open>parts.reduce((total, part) => total + (part.price * part.quantity), 0)\<close> and its
  twin on the labor lines.
\<close>

definition partsCost :: "part list \<Rightarrow> number" where
  "partsCost ps = foldl (\<lambda>total p. total + price p * quantity p) 0 ps"

definition laborCost :: "labor list \<Rightarrow> number" where
  "laborCost ls = foldl (\<lambda>total l. total + hours l * rate l) 0 ls"

text \<open>The sum the specification speaks of, over the lines stored on a work order.\<close>

definition linesTotal :: "workOrder_doc \<Rightarrow> number" where
  "linesTotal wo = (\<Sum>p\<leftarrow>wo_parts wo. price p * quantity p) + (\<Sum>l\<leftarrow>wo_labor wo. hours l * rate l)"

subsection \<open>Database access\<close>

definition findWorkOrder :: "database \<Rightarrow> oid \<Rightarrow> workOrder_doc option" where
  "findWorkOrder d i = map_of (workOrders d) i"

definition saveWorkOrder :: "database \<Rightarrow> oid \<Rightarrow> workOrder_doc \<Rightarrow> database" where
  "saveWorkOrder d i wo = d\<lparr>workOrders := AList.update i wo (workOrders d)\<rparr>"

definition findVehicle :: "database \<Rightarrow> oid \<Rightarrow> vehicle_doc option" where
  "findVehicle d i = map_of (vehicles d) i"

definition saveVehicle :: "database \<Rightarrow> oid \<Rightarrow> vehicle_doc \<Rightarrow> database" where
  "saveVehicle d i v = d\<lparr>vehicles := AList.update i v (vehicles d)\<rparr>"

definition findCustomer :: "database \<Rightarrow> oid \<Rightarrow> customer_doc option" where
  "findCustomer d i = map_of (customers d) i"

text \<open>
  \<open>.populate('customer', 'name phone email')\<close>: the populated customer carries the
  selected fields only, so its \<open>communicationPreference\<close> reads as undefined.
\<close>

definition populateCustomerSelected :: "database \<Rightarrow> oid \<Rightarrow> customer_doc option" where
  "populateCustomerSelected d i =
     map_option (\<lambda>c. c\<lparr>c_communicationPreference := None\<rparr>) (findCustomer d i)"

subsection \<open>addPart and addLabor\<close>



subsection \<open>updateStatus\<close>

text \<open>
  The notification block of \<open>updateStatus\<close> reads the customer through the populate
  with selected fields; the events it yields are the attempt and, when the call
  throws, the logged failure (the \<open>catch\<close> swallows the error).
\<close>

definition smsEvents :: "env \<Rightarrow> string \<Rightarrow> event list" where
  "smsEvents e st = SmsAttempted st # (if smsThrows e then [SmsFailureLogged] else [])"

definition notifyStatusUpdate :: "env \<Rightarrow> database \<Rightarrow> workOrder_doc \<Rightarrow> event list" where
  "notifyStatusUpdate e d wo =
     (case populateCustomerSelected d (wo_customer wo) of
        None \<Rightarrow> []
      | Some c \<Rightarrow>
          if c_communicationPreference c \<noteq> Some ''None'' then
            (if c_communicationPreference c = Some ''SMS'' \<and> truthyStr (c_phone c)
             then smsEvents e (wo_status wo) else [])
          else [])"

definition updateStatus :: "env \<Rightarrow> database \<Rightarrow> oid \<Rightarrow> string option \<Rightarrow> outcome" where
  "updateStatus e d i status =
     (if \<not> truthyStr status then fail d ''Please provide a status'' 400
      else
        case findWorkOrder d i of
          None \<Rightarrow> fail d ''No work order found with that ID'' 404
        | Some workOrder \<Rightarrow>
            let st = the status;
                assigned = workOrder\<lparr>wo_status := st\<rparr>;
                final = (st = ''Completed - Paid'' \<or> st = ''Invoiced'');
                total = partsCost (wo_parts assigned) + laborCost (wo_labor assigned);
                saved = (if final then assigned\<lparr>wo_totalActual := total\<rparr> else assigned);
                d' = saveWorkOrder d i saved
            in \<lparr>response = Success 200 i saved,
                db = d',
                trace = StatusAssigned st
                        # (if final then [TotalRecalculated total] else [])
                        @ [WorkOrderPersisted i]
                        @ notifyStatusUpdate e d' saved\<rparr>)"

subsection \<open>Strings\<close>

text \<open>
  Strings are lists of 8-bit characters. \<open>isWhiteSpace\<close> holds the characters of that
  range that \<open>String.prototype.trim\<close> strips (TAB, LF, VT, FF, CR, space, NBSP).
\<close>

definition LF :: char where
  "LF = CHR 0x0A"

definition isWhiteSpace :: "char \<Rightarrow> bool" where
  "isWhiteSpace c = (c = CHR 0x09 \<or> c = CHR 0x0A \<or> c = CHR 0x0B \<or> c = CHR 0x0C
                     \<or> c = CHR 0x0D \<or> c = CHR 0x20 \<or> c = CHR 0xA0)"

definition trim :: "string \<Rightarrow> string" where
  "trim s = rev (dropWhile isWhiteSpace (rev (dropWhile isWhiteSpace s)))"

text \<open>\<open>s.split('\n')\<close>: the pieces between the line feeds, empty pieces kept.\<close>

fun consHead :: "char \<Rightarrow> string list \<Rightarrow> string list" where
  "consHead c [] = [[c]]"
| "consHead c (piece # pieces) = (c # piece) # pieces"

fun splitLines :: "string \<Rightarrow> string list" where
  "splitLines [] = [[]]"
| "splitLines (c # cs) =
     (if c = LF then [] # splitLines cs else consHead c (splitLines cs))"

text \<open>\<open>xs.join('\n')\<close>.\<close>

fun joinLines :: "string list \<Rightarrow> string" where
  "joinLines [] = []"
| "joinLines [x] = x"
| "joinLines (x # y # ys) = x @ LF # joinLines (y # ys)"

definition includesLF :: "string \<Rightarrow> bool" where
  "includesLF s = (LF \<in> set s)"

text \<open>\<open>s.includes(sub)\<close>: \<open>sub\<close> occurs in \<open>s\<close> at some offset.\<close>

definition includesStr :: "string \<Rightarrow> string \<Rightarrow> bool" where
  "includesStr s sub = list_ex (\<lambda>k. take (length sub) (drop k s) = sub) [0..<Suc (length s)]"

subsection \<open>The services array and the serviceRequested string\<close>

text \<open>
  The conversion both handlers apply to a truthy \<open>serviceRequested\<close> when no services
  are given: with a line feed in it, split, drop the lines that trim to nothing, trim
  the rest; without one, a single service holding the string as it is.
\<close>

definition servicesOfRequested :: "string \<Rightarrow> service list" where
  "servicesOfRequested s =
     (if includesLF s
      then map (\<lambda>line. \<lparr>description = trim line\<rparr>)
               (filter (\<lambda>line. trim line \<noteq> []) (splitLines s))
      else [\<lparr>description = s\<rparr>])"

definition requestedOfServices :: "service list \<Rightarrow> string" where
  "requestedOfServices xs = joinLines (map description xs)"

text \<open>
  The \<open>typeof services === 'string'\<close> branch: \<open>JSON.parse\<close>, and on a SyntaxError the
  string becomes the single service.
\<close>

definition parseServicesString :: "env \<Rightarrow> string \<Rightarrow> services_val" where
  "parseServicesString e s =
     (case JSON_parse e s of Some v \<Rightarrow> v | None \<Rightarrow> SArray [\<lparr>description = s\<rparr>])"

text \<open>
  \<open>!services || services.length === 0\<close>. A request value \<open>SNonArray\<close> stands for a
  truthy value without a length (an object, a number, \<open>true\<close>).
\<close>

fun servicesMissing :: "services_val option \<Rightarrow> bool" where
  "servicesMissing None = True"
| "servicesMissing (Some (SArray xs)) = (xs = [])"
| "servicesMissing (Some (SStr s)) = (s = [])"
| "servicesMissing (Some SNonArray) = False"

fun truthyServices :: "services_val option \<Rightarrow> bool" where
  "truthyServices None = False"
| "truthyServices (Some (SArray xs)) = True"
| "truthyServices (Some (SStr s)) = (s \<noteq> [])"
| "truthyServices (Some SNonArray) = True"

text \<open>Lines 106--133 of the controller (create).\<close>

definition createServices :: "env \<Rightarrow> body \<Rightarrow> body" where
  "createServices e data =
     (if servicesMissing (b_services data) then
        (if truthyStr (b_serviceRequested data)
         then data\<lparr>b_services := Some (SArray (servicesOfRequested (the (b_serviceRequested data))))\<rparr>
         else data\<lparr>b_services := Some (SArray [])\<rparr>)
      else
        (case b_services data of
           Some (SStr s) \<Rightarrow> data\<lparr>b_services := Some (parseServicesString e s)\<rparr>
         | _ \<Rightarrow> data))"

text \<open>Lines 135--140: regenerate \<open>serviceRequested\<close> from a non-empty array.\<close>

definition createServiceRequested :: "body \<Rightarrow> body" where
  "createServiceRequested data =
     (case b_services data of
        Some (SArray xs) \<Rightarrow>
          (if xs \<noteq> [] then data\<lparr>b_serviceRequested := Some (requestedOfServices xs)\<rparr> else data)
      | _ \<Rightarrow> data)"

text \<open>Lines 196--221 of the controller (update).\<close>

definition updateServices :: "env \<Rightarrow> body \<Rightarrow> body" where
  "updateServices e data =
     (if truthyServices (b_services data) then
        let parsed = (case b_services data of
                        Some (SStr s) \<Rightarrow> parseServicesString e s
                      | Some v \<Rightarrow> v
                      | None \<Rightarrow> SNonArray)
        in data\<lparr>b_services := Some parsed,
                b_serviceRequested :=
                  Some (case parsed of SArray xs \<Rightarrow> requestedOfServices xs | _ \<Rightarrow> [])\<rparr>
      else if truthyStr (b_serviceRequested data)
      then data\<lparr>b_services := Some (SArray (servicesOfRequested (the (b_serviceRequested data))))\<rparr>
      else data)"

subsection \<open>Writing request data into a document\<close>

text \<open>
  \<open>WorkOrder.create(data)\<close> and \<open>findByIdAndUpdate(id, data)\<close> set the fields the data
  carries and leave the others (for create: at the schema's defaults).
\<close>

definition setField :: "'a option \<Rightarrow> 'a \<Rightarrow> 'a" where
  "setField new old = (case new of Some v \<Rightarrow> v | None \<Rightarrow> old)"

definition applyData :: "body \<Rightarrow> workOrder_doc \<Rightarrow> workOrder_doc" where
  "applyData data wo =
     \<lparr>wo_customer = setField (b_customer data) (wo_customer wo),
      wo_vehicle = setField (b_vehicle data) (wo_vehicle wo),
      wo_date = setField (b_date data) (wo_date wo),
      wo_status = setField (b_status data) (wo_status wo),
      wo_services = setField (b_services data) (wo_services wo),
      wo_serviceRequested = setField (b_serviceRequested data) (wo_serviceRequested wo),
      wo_parts = setField (b_parts data) (wo_parts wo),
      wo_labor = setField (b_labor data) (wo_labor wo),
      wo_totalEstimate = setField (b_totalEstimate data) (wo_totalEstimate wo),
      wo_totalActual = setField (b_totalActual data) (wo_totalActual wo),
      wo_currentMileage = (case b_currentMileage data of Some m \<Rightarrow> Some m
                                                         | None \<Rightarrow> wo_currentMileage wo),
      wo_appointmentId = (case b_appointmentId data of Some a \<Rightarrow> Some a
                                                       | None \<Rightarrow> wo_appointmentId wo),
      wo_assignedTechnician = (case b_assignedTechnician data of Some t \<Rightarrow> Some t
                                                       | None \<Rightarrow> wo_assignedTechnician wo),
      wo_diagnosticNotes = setField (b_diagnosticNotes data) (wo_diagnosticNotes wo)\<rparr>"

subsection \<open>Mileage\<close>

text \<open>\<open>data.currentMileage && !isNaN(parseFloat(data.currentMileage))\<close>.\<close>

fun truthyMileage :: "mileage_val option \<Rightarrow> bool" where
  "truthyMileage None = False"
| "truthyMileage (Some (MNum n)) = (n \<noteq> 0)"
| "truthyMileage (Some (MStr s)) = (s \<noteq> [])"

fun parseFloat :: "env \<Rightarrow> mileage_val \<Rightarrow> number option" where
  "parseFloat e (MNum n) = Some n"
| "parseFloat e (MStr s) = parseFloatStr e s"

definition mileageValue :: "env \<Rightarrow> body \<Rightarrow> number option" where
  "mileageValue e data =
     (if truthyMileage (b_currentMileage data)
      then parseFloat e (the (b_currentMileage data)) else None)"

definition sourceOf :: "oid \<Rightarrow> string" where
  "sourceOf i = ''Work Order #'' @ i"

definition entryDate :: "env \<Rightarrow> body \<Rightarrow> date" where
  "entryDate e data = (case b_date data of Some dt \<Rightarrow> dt | None \<Rightarrow> now e)"

subsection \<open>createWorkOrder\<close>

text \<open>Lines 142--161: the estimate from the parts and labor of the request.\<close>

definition createPartsTotal :: "body \<Rightarrow> body" where
  "createPartsTotal data =
     (case b_parts data of
        Some ps \<Rightarrow>
          (if ps \<noteq> [] \<and> \<not> truthyNum (b_totalEstimate data)
           then data\<lparr>b_totalEstimate := Some (partsCost ps)\<rparr> else data)
      | None \<Rightarrow> data)"

definition createLaborTotal :: "body \<Rightarrow> body" where
  "createLaborTotal data =
     (case b_labor data of
        Some ls \<Rightarrow>
          (if ls \<noteq> [] \<and> \<not> truthyNum (b_totalEstimate data)
           then data\<lparr>b_totalEstimate :=
                  Some ((if truthyNum (b_totalEstimate data) then the (b_totalEstimate data) else 0)
                        + laborCost ls)\<rparr>
           else data)
      | None \<Rightarrow> data)"

definition createData :: "env \<Rightarrow> body \<Rightarrow> body" where
  "createData e reqBody =
     createLaborTotal (createPartsTotal (createServiceRequested (createServices e reqBody)))"

text \<open>Lines 165--181: the vehicle of the new work order.\<close>

definition createVehicleUpdate :: "env \<Rightarrow> body \<Rightarrow> vehicle_doc \<Rightarrow> vehicle_doc" where
  "createVehicleUpdate e data vehicle =
     (let pushed = vehicle\<lparr>serviceHistory := serviceHistory vehicle @ [newId e]\<rparr>
      in case mileageValue e data of
           Some mv \<Rightarrow>
             pushed\<lparr>mileageHistory := mileageHistory pushed @
                       [\<lparr>m_date = entryDate e data, m_mileage = mv, m_source = sourceOf (newId e)\<rparr>],
                    v_currentMileage := Some mv\<rparr>
         | None \<Rightarrow> pushed)"

text \<open>\<open>Vehicle.findById(req.body.vehicle)\<close> and \<open>Customer.findById(req.body.customer)\<close>.\<close>

definition requestVehicle :: "database \<Rightarrow> body \<Rightarrow> vehicle_doc option" where
  "requestVehicle d reqBody =
     (case b_vehicle reqBody of Some vid \<Rightarrow> findVehicle d vid | None \<Rightarrow> None)"

definition requestCustomer :: "database \<Rightarrow> body \<Rightarrow> customer_doc option" where
  "requestCustomer d reqBody =
     (case b_customer reqBody of Some cid \<Rightarrow> findCustomer d cid | None \<Rightarrow> None)"

definition createWorkOrder :: "env \<Rightarrow> database \<Rightarrow> body \<Rightarrow> outcome" where
  "createWorkOrder e d reqBody =
     (case requestVehicle d reqBody of
        None \<Rightarrow> fail d ''No vehicle found with that ID'' 404
      | Some vehicle \<Rightarrow>
          (case requestCustomer d reqBody of
             None \<Rightarrow> fail d ''No customer found with that ID'' 404
           | Some customer \<Rightarrow>
               if Some (v_customer vehicle) \<noteq> b_customer reqBody
               then fail d ''The vehicle does not belong to this customer'' 400
               else
                 (let data = createData e reqBody;
                      newWorkOrder = applyData data (schemaDefaults e);
                      d1 = saveWorkOrder d (newId e) newWorkOrder;
                      d2 = saveVehicle d1 (the (b_vehicle reqBody))
                             (createVehicleUpdate e data vehicle)
                  in \<lparr>response = Success 201 (newId e) newWorkOrder,
                      db = d2,
                      trace = [WorkOrderPersisted (newId e),
                               VehiclePersisted (the (b_vehicle reqBody))]\<rparr>)))"

subsection \<open>updateWorkOrder\<close>

text \<open>
  Lines 223--270. The existing work order is read only when the request carries parts
  or labor, and a missing one ends the handler with 404. Each of the two blocks
  assigns \<open>totalEstimate\<close> when the data holds no truthy one at that point.
\<close>

definition updatePartsTotal :: "workOrder_doc \<Rightarrow> body \<Rightarrow> body \<times> event list" where
  "updatePartsTotal workOrder data =
     (case b_parts data of
        Some ps \<Rightarrow>
          (if \<not> truthyNum (b_totalEstimate data) then
             let lc = (case b_labor data of Some ls \<Rightarrow> laborCost ls
                                          | None \<Rightarrow> laborCost (wo_labor workOrder));
                 total = partsCost ps + lc
             in (data\<lparr>b_totalEstimate := Some total\<rparr>, [TotalRecalculated total])
           else (data, []))
      | None \<Rightarrow> (data, []))"

definition updateLaborTotal :: "workOrder_doc \<Rightarrow> body \<Rightarrow> body \<times> event list" where
  "updateLaborTotal workOrder data =
     (case b_labor data of
        Some ls \<Rightarrow>
          (if \<not> truthyNum (b_totalEstimate data) then
             let pc = (case b_parts data of Some ps \<Rightarrow> partsCost ps
                                          | None \<Rightarrow> partsCost (wo_parts workOrder));
                 total = pc + laborCost ls
             in (data\<lparr>b_totalEstimate := Some total\<rparr>, [TotalRecalculated total])
           else (data, []))
      | None \<Rightarrow> (data, []))"

definition updateTotals :: "database \<Rightarrow> oid \<Rightarrow> body \<Rightarrow> (body \<times> event list) option" where
  "updateTotals d i data =
     (if b_parts data \<noteq> None \<or> b_labor data \<noteq> None then
        (case findWorkOrder d i of
           None \<Rightarrow> None
         | Some workOrder \<Rightarrow>
             let (data1, ev1) = updatePartsTotal workOrder data;
                 (data2, ev2) = updateLaborTotal workOrder data1
             in Some (data2, ev1 @ ev2))
      else Some (data, []))"

text \<open>
  Lines 273--298: the mileage of the work order's vehicle. An entry of the same
  mileage, the same day and this work order as its source is not pushed again.
\<close>

definition existingMileageEntry :: "env \<Rightarrow> body \<Rightarrow> oid \<Rightarrow> number \<Rightarrow> mileage_entry \<Rightarrow> bool" where
  "existingMileageEntry e data i mv entry =
     (m_mileage entry = mv
      \<and> toDateString e (m_date entry) = toDateString e (entryDate e data)
      \<and> includesStr (m_source entry) (sourceOf i))"

definition updateMileage :: "env \<Rightarrow> database \<Rightarrow> oid \<Rightarrow> body \<Rightarrow> database \<times> event list" where
  "updateMileage e d i data =
     (case mileageValue e data of
        None \<Rightarrow> (d, [])
      | Some mv \<Rightarrow>
          (case findWorkOrder d i of
             None \<Rightarrow> (d, [])
           | Some workOrderForVehicle \<Rightarrow>
               (case findVehicle d (wo_vehicle workOrderForVehicle) of
                  None \<Rightarrow> (d, [])
                | Some vehicleToUpdate \<Rightarrow>
                    let pushed =
                          (if list_ex (existingMileageEntry e data i mv) (mileageHistory vehicleToUpdate)
                           then vehicleToUpdate
                           else vehicleToUpdate\<lparr>mileageHistory := mileageHistory vehicleToUpdate @
                                  [\<lparr>m_date = entryDate e data, m_mileage = mv, m_source = sourceOf i\<rparr>]\<rparr>);
                        saved = pushed\<lparr>v_currentMileage := Some mv\<rparr>
                    in (saveVehicle d (wo_vehicle workOrderForVehicle) saved,
                        [MileageSynced (wo_vehicle workOrderForVehicle)]))))"

text \<open>
  Lines 300--348: the notification. Here the customer is populated whole. The email
  branch has an empty body and yields nothing.
\<close>

definition notifiableStatuses :: "string list" where
  "notifiableStatuses =
     [''Inspected - Need Parts Ordered'', ''Parts Received'', ''Repair In Progress'',
      ''Completed - Need Payment'', ''Completed - Paid'']"

definition smsAttemptedOnUpdate :: "database \<Rightarrow> oid \<Rightarrow> body \<Rightarrow> bool" where
  "smsAttemptedOnUpdate d i data =
     (truthyStr (b_status data) \<and>
      (case findWorkOrder d i of
         None \<Rightarrow> False
       | Some oldWorkOrder \<Rightarrow>
           wo_status oldWorkOrder \<noteq> the (b_status data)
           \<and> the (b_status data) \<in> set notifiableStatuses
           \<and> (case findCustomer d (wo_customer oldWorkOrder) of
                None \<Rightarrow> False
              | Some customer \<Rightarrow>
                  findVehicle d (wo_vehicle oldWorkOrder) \<noteq> None
                  \<and> c_communicationPreference customer = Some ''SMS''
                  \<and> truthyStr (c_phone customer))))"

definition updateNotify :: "env \<Rightarrow> database \<Rightarrow> oid \<Rightarrow> body \<Rightarrow> event list" where
  "updateNotify e d i data =
     (if smsAttemptedOnUpdate d i data then smsEvents e (the (b_status data)) else [])"

text \<open>Lines 352--362: the technician of the appointment becomes the assigned one.\<close>

definition updateTechnician :: "database \<Rightarrow> body \<Rightarrow> body" where
  "updateTechnician d data =
     (case b_appointmentId data of
        None \<Rightarrow> data
      | Some aid \<Rightarrow>
          if aid = [] then data
          else (case map_of (appointments d) aid of
                  None \<Rightarrow> data
                | Some appointment \<Rightarrow>
                    (case a_technician appointment of
                       None \<Rightarrow> data
                     | Some t \<Rightarrow>
                         if t \<in> set (technicians d)
                         then data\<lparr>b_assignedTechnician := Some t\<rparr> else data)))"

text \<open>Lines 365--382: \<open>findByIdAndUpdate\<close>; the status of the data is written here.\<close>

definition writeEvents :: "oid \<Rightarrow> body \<Rightarrow> event list" where
  "writeEvents i data =
     (case b_status data of Some st \<Rightarrow> [StatusAssigned st] | None \<Rightarrow> []) @ [WorkOrderPersisted i]"

definition updateWrite :: "database \<Rightarrow> oid \<Rightarrow> body \<Rightarrow> event list \<Rightarrow> outcome" where
  "updateWrite d i data evs =
     (case findWorkOrder d i of
        None \<Rightarrow>
          \<lparr>response = Failure (AppError ''No work order found with that ID'' 404),
           db = d, trace = evs\<rparr>
      | Some existing \<Rightarrow>
          \<lparr>response = Success 200 i (applyData data existing),
           db = saveWorkOrder d i (applyData data existing),
           trace = evs @ writeEvents i data\<rparr>)"

definition updateWorkOrder :: "env \<Rightarrow> database \<Rightarrow> oid \<Rightarrow> body \<Rightarrow> outcome" where
  "updateWorkOrder e d i reqBody =
     (case updateTotals d i (updateServices e reqBody) of
        None \<Rightarrow> fail d ''No work order found with that ID'' 404
      | Some (data, evTotals) \<Rightarrow>
          (let d1 = fst (updateMileage e d i data);
               evMileage = snd (updateMileage e d i data);
               evNotify = updateNotify e d1 i data
           in updateWrite d1 i (updateTechnician d1 data) (evTotals @ evMileage @ evNotify)))"

subsection \<open>A small shop\<close>

text \<open>
  A customer who prefers SMS, a vehicle, a work order with a part and a labor line:
  the concrete database on which the theorems below are instantiated.
\<close>

definition exCustomer :: customer_doc where
  "exCustomer = \<lparr>c_name = ''Ana'', c_phone = Some ''5550100'', c_email = None,
                  c_communicationPreference = Some ''SMS''\<rparr>"

definition exVehicle :: vehicle_doc where
  "exVehicle = \<lparr>v_customer = ''c1'', serviceHistory = [], mileageHistory = [],
                 v_currentMileage = None\<rparr>"

definition exPart :: part where
  "exPart = \<lparr>part_name = ''Filter'', price = 10, quantity = 1\<rparr>"

definition exLabor :: labor where
  "exLabor = \<lparr>labor_description = ''Install'', hours = 1, rate = 75\<rparr>"

definition exWorkOrder :: workOrder_doc where
  "exWorkOrder = \<lparr>wo_customer = ''c1'', wo_vehicle = ''v1'', wo_date = 0,
                   wo_status = ''Created'', wo_services = SArray [],
                   wo_serviceRequested = [], wo_parts = [exPart], wo_labor = [exLabor],
                   wo_totalEstimate = 85, wo_totalActual = 0, wo_currentMileage = None,
                   wo_appointmentId = None, wo_assignedTechnician = None,
                   wo_diagnosticNotes = []\<rparr>"

text \<open>A second customer, who prefers email, and a work order whose vehicle is gone.\<close>

definition exCustomerEmail :: customer_doc where
  "exCustomerEmail = \<lparr>c_name = ''Ben'', c_phone = Some ''5550101'', c_email = Some ''ben@example.org'',
                       c_communicationPreference = Some ''Email''\<rparr>"

definition exOrphan :: workOrder_doc where
  "exOrphan = exWorkOrder\<lparr>wo_vehicle := ''v0''\<rparr>"

definition exDb :: database where
  "exDb = \<lparr>workOrders = [(''w1'', exWorkOrder), (''w3'', exOrphan)],
            vehicles = [(''v1'', exVehicle)],
            customers = [(''c1'', exCustomer), (''c2'', exCustomerEmail)],
            appointments = [], technicians = []\<rparr>"

definition exDefaults :: workOrder_doc where
  "exDefaults = \<lparr>wo_customer = [], wo_vehicle = [], wo_date = 0,
                  wo_status = ''Created'', wo_services = SArray [],
                  wo_serviceRequested = [], wo_parts = [], wo_labor = [],
                  wo_totalEstimate = 0, wo_totalActual = 0, wo_currentMileage = None,
                  wo_appointmentId = None, wo_assignedTechnician = None,
                  wo_diagnosticNotes = []\<rparr>"

definition exEnv :: env where
  "exEnv = \<lparr>now = 1000, newId = ''w9'', smsThrows = True,
             parseFloatStr = (\<lambda>s. if s = ''42000'' then Some 42000 else None),
             JSON_parse = (\<lambda>s. None),
             toDateString = (\<lambda>dt. ''Thu Jan 01 1970''),
             schemaDefaults = exDefaults\<rparr>"

definition emptyBody :: body where
  "emptyBody = \<lparr>b_customer = None, b_vehicle = None, b_date = None, b_status = None,
                 b_services = None, b_serviceRequested = None, b_parts = None,
                 b_labor = None, b_totalEstimate = None, b_totalActual = None,
                 b_currentMileage = None, b_appointmentId = None,
                 b_assignedTechnician = None, b_diagnosticNotes = None\<rparr>"

definition createBody :: body where
  "createBody = emptyBody\<lparr>b_customer := Some ''c1'', b_vehicle := Some ''v1''\<rparr>"




subsection \<open>The specification's reading of the conversion\<close>


subsection \<open>The order of the side effects\<close>





text \<open>Update requests on the small shop.\<close>

definition pipelineBody :: body where
  "pipelineBody = emptyBody\<lparr>b_status := Some ''Parts Received'', b_parts := Some [exPart],
                            b_currentMileage := Some (MNum 42000)\<rparr>"

definition statusBody :: "string \<Rightarrow> body" where
  "statusBody st = emptyBody\<lparr>b_status := Some st\<rparr>"


definition linesBody :: body where
  "linesBody = createBody\<lparr>b_parts := Some [exPart], b_labor := Some [exLabor]\<rparr>"


section \<open>Properties\<close>

lemma partsCost_sum: "partsCost ps = (\<Sum>p\<leftarrow>ps. price p * quantity p)"
proof -
  have "foldl (\<lambda>total p. total + price p * quantity p) a ps
        = a + (\<Sum>p\<leftarrow>ps. price p * quantity p)" for a
    by (induction ps arbitrary: a) (simp_all add: add.assoc)
  then show ?thesis by (simp add: partsCost_def)
qed

lemma laborCost_sum: "laborCost ls = (\<Sum>l\<leftarrow>ls. hours l * rate l)"
proof -
  have "foldl (\<lambda>total l. total + hours l * rate l) a ls
        = a + (\<Sum>l\<leftarrow>ls. hours l * rate l)" for a
    by (induction ls arbitrary: a) (simp_all add: add.assoc)
  then show ?thesis by (simp add: laborCost_def)
qed

lemma find_saved: "findWorkOrder (saveWorkOrder d i wo) i = Some wo"
  by (simp add: findWorkOrder_def saveWorkOrder_def update_conv')

subsection \<open>Adding a line recomputes the estimate\<close>



subsection \<open>The status update and the actual total\<close>



subsection \<open>The responses of the status update\<close>

text \<open>
  Claim C9. \<open>updateStatus\<close> answers with the operational error 400 exactly when the
  body holds no status (absent or empty, the values \<open>!status\<close> accepts); otherwise
  with the operational error 404 exactly when no work order has the given id;
  otherwise with success and HTTP status 200.
\<close>

theorem updateStatus_response:
  "(response (updateStatus e d i status) = Failure (AppError ''Please provide a status'' 400)
      \<longleftrightarrow> \<not> truthyStr status)
   \<and> (truthyStr status \<longrightarrow>
        (response (updateStatus e d i status) = Failure (AppError ''No work order found with that ID'' 404)
           \<longleftrightarrow> findWorkOrder d i = None))
   \<and> (truthyStr status \<and> findWorkOrder d i \<noteq> None \<longrightarrow>
        (\<exists>wo. response (updateStatus e d i status) = Success 200 i wo))
   \<and> httpStatus (response (updateStatus e d i status)) =
        (if \<not> truthyStr status then 400 else if findWorkOrder d i = None then 404 else 200)"
  by (auto simp add: updateStatus_def fail_def AppError_def Let_def split: option.splits)

theorem updateStatus_response_witness:
  "\<not> truthyStr None \<and> truthyStr (Some ''Invoiced'')
   \<and> findWorkOrder exDb ''zz'' = None \<and> findWorkOrder exDb ''w1'' \<noteq> None
   \<and> httpStatus (response (updateStatus exEnv exDb ''w1'' None)) = 400
   \<and> httpStatus (response (updateStatus exEnv exDb ''zz'' (Some ''Invoiced''))) = 404
   \<and> httpStatus (response (updateStatus exEnv exDb ''w1'' (Some ''Invoiced''))) = 200"
proof -
  have h1: "findWorkOrder exDb ''zz'' = None" and h2: "findWorkOrder exDb ''w1'' \<noteq> None"
    by (simp_all add: findWorkOrder_def exDb_def)
  show ?thesis
    using h1 h2 updateStatus_response [of exEnv exDb "''w1''" None]
      updateStatus_response [of exEnv exDb "''zz''" "Some ''Invoiced''"]
      updateStatus_response [of exEnv exDb "''w1''" "Some ''Invoiced''"]
    by (auto simp add: AppError_def)
qed

subsection \<open>Creation fails before it writes\<close>

text \<open>
  Claim C10. When the vehicle of the request does not exist, or the customer does not
  exist, or the vehicle belongs to another customer, \<open>createWorkOrder\<close> returns the
  operational error of that case (404, 404, 400) and leaves the database as it was:
  no work order is created and no vehicle is touched.
\<close>

theorem createWorkOrder_validation_atomic:
  assumes "requestVehicle d reqBody = None \<or> requestCustomer d reqBody = None
           \<or> (\<exists>v. requestVehicle d reqBody = Some v \<and> Some (v_customer v) \<noteq> b_customer reqBody)"
  shows "db (createWorkOrder e d reqBody) = d
         \<and> trace (createWorkOrder e d reqBody) = []
         \<and> response (createWorkOrder e d reqBody) =
             Failure (if requestVehicle d reqBody = None
                      then AppError ''No vehicle found with that ID'' 404
                      else if requestCustomer d reqBody = None
                      then AppError ''No customer found with that ID'' 404
                      else AppError ''The vehicle does not belong to this customer'' 400)"
  using assms
  by (auto simp add: createWorkOrder_def fail_def split: option.splits)

theorem createWorkOrder_validation_atomic_witness:
  "requestVehicle exDb (createBody\<lparr>b_vehicle := Some ''v9''\<rparr>) = None
   \<and> db (createWorkOrder exEnv exDb (createBody\<lparr>b_vehicle := Some ''v9''\<rparr>)) = exDb
   \<and> httpStatus (response (createWorkOrder exEnv exDb (createBody\<lparr>b_vehicle := Some ''v9''\<rparr>))) = 404
   \<and> requestCustomer exDb (createBody\<lparr>b_customer := Some ''c9''\<rparr>) = None
   \<and> db (createWorkOrder exEnv exDb (createBody\<lparr>b_customer := Some ''c9''\<rparr>)) = exDb
   \<and> httpStatus (response (createWorkOrder exEnv exDb (createBody\<lparr>b_customer := Some ''c9''\<rparr>))) = 404
   \<and> requestVehicle exDb (createBody\<lparr>b_customer := Some ''c2''\<rparr>) = Some exVehicle
   \<and> requestCustomer exDb (createBody\<lparr>b_customer := Some ''c2''\<rparr>) = Some exCustomerEmail
   \<and> Some (v_customer exVehicle) \<noteq> b_customer (createBody\<lparr>b_customer := Some ''c2''\<rparr>)
   \<and> db (createWorkOrder exEnv exDb (createBody\<lparr>b_customer := Some ''c2''\<rparr>)) = exDb
   \<and> httpStatus (response (createWorkOrder exEnv exDb (createBody\<lparr>b_customer := Some ''c2''\<rparr>))) = 400"
proof -
  have h1: "requestVehicle exDb (createBody\<lparr>b_vehicle := Some ''v9''\<rparr>) = None"
    by (simp add: requestVehicle_def findVehicle_def exDb_def)
  have h2: "requestCustomer exDb (createBody\<lparr>b_customer := Some ''c9''\<rparr>) = None"
    by (simp add: requestCustomer_def findCustomer_def exDb_def)
  have h3: "requestVehicle exDb (createBody\<lparr>b_customer := Some ''c9''\<rparr>) = Some exVehicle"
    by (simp add: requestVehicle_def findVehicle_def exDb_def createBody_def emptyBody_def)
  have h4: "requestVehicle exDb (createBody\<lparr>b_customer := Some ''c2''\<rparr>) = Some exVehicle"
    by (simp add: requestVehicle_def findVehicle_def exDb_def createBody_def emptyBody_def)
  have h5: "requestCustomer exDb (createBody\<lparr>b_customer := Some ''c2''\<rparr>) = Some exCustomerEmail"
    by (simp add: requestCustomer_def findCustomer_def exDb_def)
  have h6: "Some (v_customer exVehicle) \<noteq> b_customer (createBody\<lparr>b_customer := Some ''c2''\<rparr>)"
    by (simp add: exVehicle_def)
  show ?thesis
    using h1 h2 h3 h4 h5 h6
      createWorkOrder_validation_atomic [of exDb "createBody\<lparr>b_vehicle := Some ''v9''\<rparr>" exEnv]
      createWorkOrder_validation_atomic [of exDb "createBody\<lparr>b_customer := Some ''c9''\<rparr>" exEnv]
      createWorkOrder_validation_atomic [of exDb "createBody\<lparr>b_customer := Some ''c2''\<rparr>" exEnv]
    by (simp add: AppError_def)
qed

subsection \<open>Creation and the vehicle\<close>

lemma createServices_frame:
  "b_currentMileage (createServices e data) = b_currentMileage data"
  "b_date (createServices e data) = b_date data"
  "b_parts (createServices e data) = b_parts data"
  "b_labor (createServices e data) = b_labor data"
  "b_totalEstimate (createServices e data) = b_totalEstimate data"
  "b_serviceRequested (createServices e data) = b_serviceRequested data"
  by (simp_all add: createServices_def split: option.splits services_val.splits)

lemma createServiceRequested_frame:
  "b_currentMileage (createServiceRequested data) = b_currentMileage data"
  "b_date (createServiceRequested data) = b_date data"
  "b_parts (createServiceRequested data) = b_parts data"
  "b_labor (createServiceRequested data) = b_labor data"
  "b_totalEstimate (createServiceRequested data) = b_totalEstimate data"
  "b_services (createServiceRequested data) = b_services data"
  by (simp_all add: createServiceRequested_def split: option.splits services_val.splits)

lemma createPartsTotal_frame:
  "b_currentMileage (createPartsTotal data) = b_currentMileage data"
  "b_date (createPartsTotal data) = b_date data"
  "b_parts (createPartsTotal data) = b_parts data"
  "b_labor (createPartsTotal data) = b_labor data"
  "b_services (createPartsTotal data) = b_services data"
  "b_serviceRequested (createPartsTotal data) = b_serviceRequested data"
  by (simp_all add: createPartsTotal_def split: option.splits)

lemma createLaborTotal_frame:
  "b_currentMileage (createLaborTotal data) = b_currentMileage data"
  "b_date (createLaborTotal data) = b_date data"
  "b_parts (createLaborTotal data) = b_parts data"
  "b_labor (createLaborTotal data) = b_labor data"
  "b_services (createLaborTotal data) = b_services data"
  "b_serviceRequested (createLaborTotal data) = b_serviceRequested data"
  by (simp_all add: createLaborTotal_def split: option.splits)

lemmas create_frame = createServices_frame createServiceRequested_frame
  createPartsTotal_frame createLaborTotal_frame

lemma createData_mileage: "b_currentMileage (createData e reqBody) = b_currentMileage reqBody"
  by (simp add: createData_def create_frame)

lemma createData_date: "b_date (createData e reqBody) = b_date reqBody"
  by (simp add: createData_def create_frame)

lemma mileageValue_createData: "mileageValue e (createData e reqBody) = mileageValue e reqBody"
  by (simp add: mileageValue_def createData_mileage)

lemma entryDate_createData: "entryDate e (createData e reqBody) = entryDate e reqBody"
  by (simp add: entryDate_def createData_date)

lemma findVehicle_saveVehicle:
  "findVehicle (saveVehicle d i v) j = (if j = i then Some v else findVehicle d j)"
  by (simp add: findVehicle_def saveVehicle_def update_conv')


lemma createVehicleUpdate_createData:
  "createVehicleUpdate e (createData e reqBody) v = createVehicleUpdate e reqBody v"
  by (simp add: createVehicleUpdate_def mileageValue_createData entryDate_createData Let_def
      split: option.splits)

lemma createWorkOrder_db:
  assumes "b_vehicle reqBody = Some vid" and "findVehicle d vid = Some v"
    and "b_customer reqBody = Some cid" and "findCustomer d cid = Some c"
    and "v_customer v = cid"
  shows "db (createWorkOrder e d reqBody) =
           saveVehicle (saveWorkOrder d (newId e) (applyData (createData e reqBody) (schemaDefaults e)))
             vid (createVehicleUpdate e reqBody v)"
    and "response (createWorkOrder e d reqBody) =
           Success 201 (newId e) (applyData (createData e reqBody) (schemaDefaults e))"
  using assms
  by (simp_all add: createWorkOrder_def requestVehicle_def requestCustomer_def Let_def
      createVehicleUpdate_createData)




subsection \<open>Services and the serviceRequested string\<close>






lemma findWorkOrder_saveVehicle: "findWorkOrder (saveVehicle d i v) j = findWorkOrder d j"
  by (simp add: findWorkOrder_def saveVehicle_def)


lemma updatePartsTotal_frame:
  "b_services (fst (updatePartsTotal w data)) = b_services data"
  "b_serviceRequested (fst (updatePartsTotal w data)) = b_serviceRequested data"
  "b_status (fst (updatePartsTotal w data)) = b_status data"
  "b_parts (fst (updatePartsTotal w data)) = b_parts data"
  "b_labor (fst (updatePartsTotal w data)) = b_labor data"
  "b_currentMileage (fst (updatePartsTotal w data)) = b_currentMileage data"
  "b_date (fst (updatePartsTotal w data)) = b_date data"
  by (simp_all add: updatePartsTotal_def Let_def split: option.splits)

lemma updateLaborTotal_frame:
  "b_services (fst (updateLaborTotal w data)) = b_services data"
  "b_serviceRequested (fst (updateLaborTotal w data)) = b_serviceRequested data"
  "b_status (fst (updateLaborTotal w data)) = b_status data"
  "b_parts (fst (updateLaborTotal w data)) = b_parts data"
  "b_labor (fst (updateLaborTotal w data)) = b_labor data"
  "b_currentMileage (fst (updateLaborTotal w data)) = b_currentMileage data"
  "b_date (fst (updateLaborTotal w data)) = b_date data"
  by (simp_all add: updateLaborTotal_def Let_def split: option.splits)

lemma updateTotals_data:
  "updateTotals d i data = Some (data', evs) \<Longrightarrow>
   data' = (case findWorkOrder d i of
              Some w \<Rightarrow> (if b_parts data \<noteq> None \<or> b_labor data \<noteq> None
                          then fst (updateLaborTotal w (fst (updatePartsTotal w data))) else data)
            | None \<Rightarrow> data)"
  by (auto simp add: updateTotals_def Let_def split_beta split: option.splits if_splits)

lemma updateTotals_frame:
  assumes "updateTotals d i data = Some (data', evs)"
  shows "b_services data' = b_services data"
    and "b_serviceRequested data' = b_serviceRequested data"
    and "b_status data' = b_status data"
    and "b_parts data' = b_parts data"
    and "b_labor data' = b_labor data"
    and "b_currentMileage data' = b_currentMileage data"
    and "b_date data' = b_date data"
  using updateTotals_data [OF assms]
  by (simp_all add: updatePartsTotal_frame updateLaborTotal_frame split: option.splits if_splits)

lemma updateTechnician_frame:
  "b_services (updateTechnician d data) = b_services data"
  "b_serviceRequested (updateTechnician d data) = b_serviceRequested data"
  "b_status (updateTechnician d data) = b_status data"
  "b_parts (updateTechnician d data) = b_parts data"
  "b_labor (updateTechnician d data) = b_labor data"
  "b_totalEstimate (updateTechnician d data) = b_totalEstimate data"
  by (simp_all add: updateTechnician_def split: option.splits)

lemma updateMileage_workOrders: "findWorkOrder (fst (updateMileage e d i data)) j = findWorkOrder d j"
  by (simp add: updateMileage_def Let_def findWorkOrder_saveVehicle split: option.splits)

lemma updateWorkOrder_success:
  assumes "response (updateWorkOrder e d i reqBody) = Success code j wo"
  shows "\<exists>data evs existing.
           updateTotals d i (updateServices e reqBody) = Some (data, evs)
           \<and> findWorkOrder d i = Some existing
           \<and> wo = applyData (updateTechnician (fst (updateMileage e d i data)) data) existing"
    and "code = 200" and "j = i"
    and "findWorkOrder (db (updateWorkOrder e d i reqBody)) i = Some wo"
  using assms
  by (auto simp add: updateWorkOrder_def updateWrite_def fail_def Let_def updateMileage_workOrders
      find_saved split: option.splits)






lemma updateTotals_found:
  "findWorkOrder d i = Some w \<Longrightarrow> \<exists>data evs. updateTotals d i data0 = Some (data, evs)"
  by (simp add: updateTotals_def Let_def split_beta)

lemma updateWorkOrder_found:
  assumes "findWorkOrder d i = Some w"
  shows "\<exists>wo. response (updateWorkOrder e d i reqBody) = Success 200 i wo
              \<and> findWorkOrder (db (updateWorkOrder e d i reqBody)) i = Some wo"
proof -
  obtain data evs where "updateTotals d i (updateServices e reqBody) = Some (data, evs)"
    using updateTotals_found [OF assms] by blast
  then show ?thesis
    using assms
    by (simp add: updateWorkOrder_def updateWrite_def Let_def updateMileage_workOrders find_saved)
qed

lemma ex_create_valid:
  assumes "b_vehicle reqBody = Some ''v1''" and "b_customer reqBody = Some ''c1''"
  shows "response (createWorkOrder exEnv exDb reqBody) =
           Success 201 ''w9'' (applyData (createData exEnv reqBody) exDefaults)"
    and "db (createWorkOrder exEnv exDb reqBody) =
           saveVehicle (saveWorkOrder exDb ''w9'' (applyData (createData exEnv reqBody) exDefaults))
             ''v1'' (createVehicleUpdate exEnv reqBody exVehicle)"
proof -
  have v: "findVehicle exDb ''v1'' = Some exVehicle"
    by (simp add: findVehicle_def exDb_def)
  have c: "findCustomer exDb ''c1'' = Some exCustomer"
    by (simp add: findCustomer_def exDb_def)
  have o: "v_customer exVehicle = ''c1''"
    by (simp add: exVehicle_def)
  have n: "newId exEnv = ''w9''" "schemaDefaults exEnv = exDefaults"
    by (simp_all add: exEnv_def)
  show "response (createWorkOrder exEnv exDb reqBody) =
           Success 201 ''w9'' (applyData (createData exEnv reqBody) exDefaults)"
    using createWorkOrder_db(2) [OF assms(1) v assms(2) c o, of exEnv] by (simp add: n)
  show "db (createWorkOrder exEnv exDb reqBody) =
           saveVehicle (saveWorkOrder exDb ''w9'' (applyData (createData exEnv reqBody) exDefaults))
             ''v1'' (createVehicleUpdate exEnv reqBody exVehicle)"
    using createWorkOrder_db(1) [OF assms(1) v assms(2) c o, of exEnv] by (simp add: n)
qed

lemma ex_w1: "findWorkOrder exDb ''w1'' = Some exWorkOrder"
  by (simp add: findWorkOrder_def exDb_def)




subsection \<open>Traces of the update handlers\<close>

lemma updateServices_frame:
  "b_status (updateServices e data) = b_status data"
  "b_parts (updateServices e data) = b_parts data"
  "b_labor (updateServices e data) = b_labor data"
  "b_totalEstimate (updateServices e data) = b_totalEstimate data"
  "b_currentMileage (updateServices e data) = b_currentMileage data"
  "b_date (updateServices e data) = b_date data"
  by (simp_all add: updateServices_def Let_def)

lemma updatePartsTotal_events: "set (snd (updatePartsTotal w data)) \<subseteq> range TotalRecalculated"
  by (simp add: updatePartsTotal_def Let_def split: option.splits)

lemma updateLaborTotal_events: "set (snd (updateLaborTotal w data)) \<subseteq> range TotalRecalculated"
  by (simp add: updateLaborTotal_def Let_def split: option.splits)

lemma updateTotals_events:
  assumes "updateTotals d i data = Some (data', evs)"
  shows "set evs \<subseteq> range TotalRecalculated"
proof (cases "b_parts data \<noteq> None \<or> b_labor data \<noteq> None")
  case False
  with assms show ?thesis by (simp add: updateTotals_def)
next
  case True
  then obtain w where "findWorkOrder d i = Some w"
    and "evs = snd (updatePartsTotal w data) @ snd (updateLaborTotal w (fst (updatePartsTotal w data)))"
    using assms by (auto simp add: updateTotals_def Let_def split_beta split: option.splits)
  then show ?thesis
    using updatePartsTotal_events [of w data]
      updateLaborTotal_events [of w "fst (updatePartsTotal w data)"]
    by simp
qed

lemma updateMileage_events: "set (snd (updateMileage e d i data)) \<subseteq> range MileageSynced"
  by (simp add: updateMileage_def Let_def split: option.splits)

lemma updateMileage_customers: "findCustomer (fst (updateMileage e d i data)) j = findCustomer d j"
  by (simp add: updateMileage_def Let_def findCustomer_def saveVehicle_def split: option.splits)

lemma updateMileage_vehicles:
  "(findVehicle (fst (updateMileage e d i data)) j = None) = (findVehicle d j = None)"
  by (auto simp add: updateMileage_def Let_def findVehicle_saveVehicle split: option.splits)

lemma updateMileage_technicians:
  "appointments (fst (updateMileage e d i data)) = appointments d"
  "technicians (fst (updateMileage e d i data)) = technicians d"
  by (simp_all add: updateMileage_def Let_def saveVehicle_def split: option.splits)

lemma smsAttempted_after_mileage:
  "smsAttemptedOnUpdate (fst (updateMileage e d i data)) i data' = smsAttemptedOnUpdate d i data'"
  by (simp add: smsAttemptedOnUpdate_def updateMileage_workOrders updateMileage_customers
      updateMileage_vehicles split: option.splits)

lemma smsEvents_set:
  "set (smsEvents e st) = (if smsThrows e then {SmsAttempted st, SmsFailureLogged} else {SmsAttempted st})"
  by (auto simp add: smsEvents_def)

lemma writeEvents_set:
  "set (writeEvents i data) \<subseteq> range StatusAssigned \<union> range WorkOrderPersisted"
  by (auto simp add: writeEvents_def split: option.splits)

lemma updateWorkOrder_trace:
  assumes "updateTotals d i (updateServices e reqBody) = Some (data, evs)"
  shows "trace (updateWorkOrder e d i reqBody) =
           evs @ snd (updateMileage e d i data)
           @ (if smsAttemptedOnUpdate d i data then smsEvents e (the (b_status data)) else [])
           @ (case findWorkOrder d i of
                None \<Rightarrow> []
              | Some w \<Rightarrow> writeEvents i (updateTechnician (fst (updateMileage e d i data)) data))"
  using assms
  by (simp add: updateWorkOrder_def updateWrite_def Let_def updateNotify_def
      smsAttempted_after_mileage updateMileage_workOrders split: option.splits)

lemma updateWorkOrder_trace_fail:
  assumes "updateTotals d i (updateServices e reqBody) = None"
  shows "trace (updateWorkOrder e d i reqBody) = []" and "findWorkOrder d i = None"
  using assms
  by (auto simp add: updateWorkOrder_def fail_def updateTotals_def Let_def split_beta
      split: option.splits if_splits)

lemma truthyStr_iff: "truthyStr x = (\<exists>s. x = Some s \<and> s \<noteq> [])"
  by (cases x) simp_all

lemma smsAttemptedOnUpdate_iff:
  "smsAttemptedOnUpdate d i data =
     (\<exists>st. b_status data = Some st \<and> st \<noteq> [] \<and>
       (\<exists>old c ph. findWorkOrder d i = Some old \<and> wo_status old \<noteq> st
        \<and> st \<in> set notifiableStatuses
        \<and> findCustomer d (wo_customer old) = Some c
        \<and> c_communicationPreference c = Some ''SMS''
        \<and> c_phone c = Some ph \<and> ph \<noteq> []
        \<and> findVehicle d (wo_vehicle old) \<noteq> None))"
proof (cases "b_status data")
  case None
  then show ?thesis by (simp add: smsAttemptedOnUpdate_def)
next
  case (Some st)
  show ?thesis
  proof (cases "findWorkOrder d i")
    case None
    then show ?thesis by (simp add: smsAttemptedOnUpdate_def)
  next
    case old: (Some old)
    show ?thesis
    proof (cases "findCustomer d (wo_customer old)")
      case None
      then show ?thesis using Some old by (simp add: smsAttemptedOnUpdate_def)
    next
      case c: (Some c)
      show ?thesis
        using Some old c
        by (cases "c_phone c") (auto simp add: smsAttemptedOnUpdate_def)
    qed
  qed
qed

lemma notifiable_set:
  "set notifiableStatuses =
     {''Inspected - Need Parts Ordered'', ''Parts Received'', ''Repair In Progress'',
      ''Completed - Need Payment'', ''Completed - Paid''}"
  unfolding notifiableStatuses_def by (simp only: list.set)

text \<open>
  Claim C5, as the code has it. In the update handler the SMS is attempted exactly when
  the request carries a non-empty status, the work order exists with a different
  status, the new status is one of the five notifiable ones, the customer of the work
  order exists, prefers SMS and has a phone number, and the vehicle of the work order
  exists.
\<close>

theorem updateWorkOrder_sms_iff:
  "SmsAttempted st \<in> set (trace (updateWorkOrder e d i reqBody)) \<longleftrightarrow>
     (b_status reqBody = Some st \<and> st \<noteq> [] \<and>
      (\<exists>old c ph. findWorkOrder d i = Some old \<and> wo_status old \<noteq> st
         \<and> st \<in> {''Inspected - Need Parts Ordered'', ''Parts Received'', ''Repair In Progress'',
                   ''Completed - Need Payment'', ''Completed - Paid''}
         \<and> findCustomer d (wo_customer old) = Some c
         \<and> c_communicationPreference c = Some ''SMS''
         \<and> c_phone c = Some ph \<and> ph \<noteq> []
         \<and> findVehicle d (wo_vehicle old) \<noteq> None))"
proof (cases "updateTotals d i (updateServices e reqBody)")
  case None
  then show ?thesis
    using updateWorkOrder_trace_fail [OF None] by simp
next
  case (Some r)
  obtain data evs where r: "r = (data, evs)"
    by (cases r)
  have t: "updateTotals d i (updateServices e reqBody) = Some (data, evs)"
    using Some r by simp
  have st: "b_status data = b_status reqBody"
    by (simp add: updateTotals_frame [OF t] updateServices_frame)
  have a: "SmsAttempted st \<notin> set evs"
    using updateTotals_events [OF t] by auto
  have b: "SmsAttempted st \<notin> set (snd (updateMileage e d i data))"
    using updateMileage_events [of e d i data] by auto
  have c: "SmsAttempted st \<notin> set (writeEvents i x)" for x
    using writeEvents_set [of i x] by auto
  have n: "SmsAttempted st \<in> set (smsEvents e st') \<longleftrightarrow> st' = st" for st'
    by (auto simp add: smsEvents_def)
  have "SmsAttempted st \<in> set (trace (updateWorkOrder e d i reqBody)) \<longleftrightarrow>
          (smsAttemptedOnUpdate d i data \<and> the (b_status data) = st)"
    unfolding updateWorkOrder_trace [OF t]
    using a b c by (cases "findWorkOrder d i") (simp_all add: n)
  also have "\<dots> \<longleftrightarrow> (b_status reqBody = Some st \<and> st \<noteq> [] \<and>
       (\<exists>old c ph. findWorkOrder d i = Some old \<and> wo_status old \<noteq> st
        \<and> st \<in> set notifiableStatuses
        \<and> findCustomer d (wo_customer old) = Some c
        \<and> c_communicationPreference c = Some ''SMS''
        \<and> c_phone c = Some ph \<and> ph \<noteq> []
        \<and> findVehicle d (wo_vehicle old) \<noteq> None))"
    unfolding smsAttemptedOnUpdate_iff st by (cases "b_status reqBody") auto
  finally show ?thesis
    by (simp only: notifiable_set)
qed









lemma ex_w3: "findWorkOrder exDb ''w3'' = Some exOrphan"
  by (simp add: findWorkOrder_def exDb_def)

lemma ex_c1: "findCustomer exDb ''c1'' = Some exCustomer"
  by (simp add: findCustomer_def exDb_def)

lemma ex_v1: "findVehicle exDb ''v1'' = Some exVehicle"
  by (simp add: findVehicle_def exDb_def)

lemma ex_v0: "findVehicle exDb ''v0'' = None"
  by (simp add: findVehicle_def exDb_def)

lemma ex_pipeline_totals:
  "updateTotals exDb ''w1'' (updateServices exEnv pipelineBody) =
     Some (pipelineBody\<lparr>b_totalEstimate := Some 85\<rparr>, [TotalRecalculated 85])"
proof -
  have "updateServices exEnv pipelineBody = pipelineBody"
    by (simp add: updateServices_def pipelineBody_def emptyBody_def)
  moreover have "partsCost [exPart] + laborCost (wo_labor exWorkOrder) = 85"
    by (simp add: partsCost_def laborCost_def exPart_def exLabor_def exWorkOrder_def)
  ultimately show ?thesis
    by (simp add: updateTotals_def ex_w1 updatePartsTotal_def updateLaborTotal_def Let_def
        pipelineBody_def emptyBody_def)
qed

lemma ex_pipeline_trace:
  "trace (updateWorkOrder exEnv exDb ''w1'' pipelineBody) =
     [TotalRecalculated 85, MileageSynced ''v1'', SmsAttempted ''Parts Received'',
      SmsFailureLogged, StatusAssigned ''Parts Received'', WorkOrderPersisted ''w1'']"
proof -
  let ?data = "pipelineBody\<lparr>b_totalEstimate := Some 85\<rparr>"
  have f: "b_status ?data = Some ''Parts Received''" "b_currentMileage ?data = Some (MNum 42000)"
    "b_appointmentId ?data = None"
    by (simp_all add: pipelineBody_def emptyBody_def)
  have m: "snd (updateMileage exEnv exDb ''w1'' ?data) = [MileageSynced ''v1'']"
    by (simp add: updateMileage_def mileageValue_def f ex_w1 ex_v1 Let_def exWorkOrder_def)
  have n: "smsAttemptedOnUpdate exDb ''w1'' ?data"
    by (simp add: smsAttemptedOnUpdate_def f ex_w1 ex_c1 ex_v1 exWorkOrder_def exCustomer_def
        notifiableStatuses_def)
  have s: "smsEvents exEnv ''Parts Received'' = [SmsAttempted ''Parts Received'', SmsFailureLogged]"
    by (simp add: smsEvents_def exEnv_def)
  have w: "writeEvents ''w1'' (updateTechnician dd ?data) =
             [StatusAssigned ''Parts Received'', WorkOrderPersisted ''w1'']" for dd
    by (simp add: writeEvents_def updateTechnician_frame f)
  show ?thesis
    by (simp add: updateWorkOrder_trace [OF ex_pipeline_totals] m n s w f ex_w1)
qed



lemma ex_status_trace:
  assumes "findWorkOrder exDb i = Some w" and "\<not> smsAttemptedOnUpdate exDb i (statusBody st)"
  shows "trace (updateWorkOrder exEnv exDb i (statusBody st)) = [StatusAssigned st, WorkOrderPersisted i]"
    and "httpStatus (response (updateWorkOrder exEnv exDb i (statusBody st))) = 200"
proof -
  have s: "updateServices exEnv (statusBody st) = statusBody st"
    by (simp add: updateServices_def statusBody_def emptyBody_def)
  have t: "updateTotals exDb i (updateServices exEnv (statusBody st)) = Some (statusBody st, [])"
    unfolding s by (simp add: updateTotals_def statusBody_def emptyBody_def)
  have m: "snd (updateMileage exEnv exDb i (statusBody st)) = []"
    by (simp add: updateMileage_def mileageValue_def statusBody_def emptyBody_def)
  have w: "writeEvents i (updateTechnician dd (statusBody st)) = [StatusAssigned st, WorkOrderPersisted i]" for dd
    by (simp add: writeEvents_def updateTechnician_frame statusBody_def emptyBody_def)
  show "trace (updateWorkOrder exEnv exDb i (statusBody st)) = [StatusAssigned st, WorkOrderPersisted i]"
    using assms by (simp add: updateWorkOrder_trace [OF t] m w)
  show "httpStatus (response (updateWorkOrder exEnv exDb i (statusBody st))) = 200"
    using updateWorkOrder_found [OF assms(1), of exEnv "statusBody st"] by auto
qed

text \<open>
  Claim C5 as it is written fails twice: a change to a notifiable status of a work
  order whose vehicle is gone sends nothing although the customer prefers SMS and has a
  phone; and a change to \<open>Invoiced\<close> sends nothing at all.
\<close>

theorem status_change_without_notification_counterexample:
  "wo_status exOrphan \<noteq> ''Parts Received''
   \<and> ''Parts Received'' \<in> set notifiableStatuses
   \<and> findWorkOrder exDb ''w3'' = Some exOrphan
   \<and> findCustomer exDb (wo_customer exOrphan) = Some exCustomer
   \<and> c_communicationPreference exCustomer = Some ''SMS''
   \<and> c_phone exCustomer = Some ''5550100''
   \<and> httpStatus (response (updateWorkOrder exEnv exDb ''w3'' (statusBody ''Parts Received''))) = 200
   \<and> trace (updateWorkOrder exEnv exDb ''w3'' (statusBody ''Parts Received'')) =
       [StatusAssigned ''Parts Received'', WorkOrderPersisted ''w3'']
   \<and> wo_status exWorkOrder \<noteq> ''Invoiced''
   \<and> findWorkOrder exDb ''w1'' = Some exWorkOrder
   \<and> httpStatus (response (updateWorkOrder exEnv exDb ''w1'' (statusBody ''Invoiced''))) = 200
   \<and> trace (updateWorkOrder exEnv exDb ''w1'' (statusBody ''Invoiced'')) =
       [StatusAssigned ''Invoiced'', WorkOrderPersisted ''w1'']"
proof -
  have a: "\<not> smsAttemptedOnUpdate exDb ''w3'' (statusBody ''Parts Received'')"
    by (simp add: smsAttemptedOnUpdate_def ex_w3 ex_c1 ex_v0 exOrphan_def exWorkOrder_def)
  have b: "\<not> smsAttemptedOnUpdate exDb ''w1'' (statusBody ''Invoiced'')"
    by (simp add: smsAttemptedOnUpdate_def ex_w1 statusBody_def emptyBody_def notifiableStatuses_def)
  have c: "wo_status exOrphan \<noteq> ''Parts Received''" "wo_status exWorkOrder \<noteq> ''Invoiced''"
    "findCustomer exDb (wo_customer exOrphan) = Some exCustomer"
    "c_communicationPreference exCustomer = Some ''SMS''" "c_phone exCustomer = Some ''5550100''"
    "''Parts Received'' \<in> set notifiableStatuses"
    by (simp_all add: exOrphan_def exWorkOrder_def ex_c1 exCustomer_def notifiableStatuses_def)
  show ?thesis
    by (simp only: ex_status_trace [OF ex_w3 a] ex_status_trace [OF ex_w1 b] c ex_w1 ex_w3 simp_thms)
qed

theorem updateWorkOrder_sms_iff_witness:
  "SmsAttempted ''Parts Received'' \<in> set (trace (updateWorkOrder exEnv exDb ''w1'' pipelineBody))
   \<and> b_status pipelineBody = Some ''Parts Received''
   \<and> SmsAttempted ''Invoiced'' \<notin> set (trace (updateWorkOrder exEnv exDb ''w1'' (statusBody ''Invoiced'')))"
proof -
  have 1: "SmsAttempted ''Invoiced'' \<notin> set (trace (updateWorkOrder exEnv exDb ''w1'' (statusBody ''Invoiced'')))"
    by (simp add: updateWorkOrder_sms_iff [of "''Invoiced''" exEnv exDb "''w1''" "statusBody ''Invoiced''"])
  have 2: "SmsAttempted ''Parts Received'' \<in> set (trace (updateWorkOrder exEnv exDb ''w1'' pipelineBody))"
    by (simp add: ex_pipeline_trace)
  have 3: "b_status pipelineBody = Some ''Parts Received''"
    by (rule updateWorkOrder_sms_iff [of "''Parts Received''" exEnv exDb "''w1''" pipelineBody,
          THEN iffD1, THEN conjunct1]) (rule 2)
  show ?thesis
    by (intro conjI 1 2 3)
qed

lemma parseFloat_smsThrows: "parseFloat (e\<lparr>smsThrows := b\<rparr>) m = parseFloat e m"
  by (cases m) simp_all

lemma parseServicesString_smsThrows:
  "parseServicesString (e\<lparr>smsThrows := b\<rparr>) s = parseServicesString e s"
  by (simp add: parseServicesString_def)

lemma updateServices_smsThrows: "updateServices (e\<lparr>smsThrows := b\<rparr>) data = updateServices e data"
  unfolding updateServices_def parseServicesString_smsThrows by (rule refl)

lemma entryDate_smsThrows: "entryDate (e\<lparr>smsThrows := b\<rparr>) data = entryDate e data"
  by (simp add: entryDate_def split: option.splits)

lemma existingMileageEntry_smsThrows:
  "existingMileageEntry (e\<lparr>smsThrows := b\<rparr>) data i mv = existingMileageEntry e data i mv"
  by (simp add: existingMileageEntry_def entryDate_smsThrows fun_eq_iff)

lemma mileageValue_smsThrows: "mileageValue (e\<lparr>smsThrows := b\<rparr>) data = mileageValue e data"
  by (simp add: mileageValue_def parseFloat_smsThrows)

lemma updateMileage_smsThrows: "updateMileage (e\<lparr>smsThrows := b\<rparr>) d i data = updateMileage e d i data"
  unfolding updateMileage_def mileageValue_smsThrows existingMileageEntry_smsThrows
    entryDate_smsThrows
  by (rule refl)

lemma updateWrite_response_db:
  "response (updateWrite d i data evs) = response (updateWrite d i data [])"
  "db (updateWrite d i data evs) = db (updateWrite d i data [])"
  by (simp_all add: updateWrite_def split: option.splits)

lemma updateWorkOrder_response_db:
  "response (updateWorkOrder e d i reqBody) =
     (case updateTotals d i (updateServices e reqBody) of
        None \<Rightarrow> Failure (AppError ''No work order found with that ID'' 404)
      | Some r \<Rightarrow> response (updateWrite (fst (updateMileage e d i (fst r))) i
                     (updateTechnician (fst (updateMileage e d i (fst r))) (fst r)) []))"
  "db (updateWorkOrder e d i reqBody) =
     (case updateTotals d i (updateServices e reqBody) of
        None \<Rightarrow> d
      | Some r \<Rightarrow> db (updateWrite (fst (updateMileage e d i (fst r))) i
                     (updateTechnician (fst (updateMileage e d i (fst r))) (fst r)) []))"
  using updateWrite_response_db
  by (simp_all add: updateWorkOrder_def fail_def Let_def split: option.splits)

lemma updateWorkOrder_smsThrows:
  "response (updateWorkOrder (e\<lparr>smsThrows := b\<rparr>) d i reqBody) = response (updateWorkOrder e d i reqBody)"
  "db (updateWorkOrder (e\<lparr>smsThrows := b\<rparr>) d i reqBody) = db (updateWorkOrder e d i reqBody)"
  unfolding updateWorkOrder_response_db updateServices_smsThrows updateMileage_smsThrows
  by (rule refl)+

lemma updateStatus_smsThrows:
  "response (updateStatus (e\<lparr>smsThrows := b\<rparr>) d i status) = response (updateStatus e d i status)"
  "db (updateStatus (e\<lparr>smsThrows := b\<rparr>) d i status) = db (updateStatus e d i status)"
  by (simp_all add: updateStatus_def Let_def split: option.splits)

lemma updateStatus_completes:
  assumes "truthyStr status" and "findWorkOrder d i = Some w"
  shows "\<exists>wo. response (updateStatus e d i status) = Success 200 i wo
              \<and> findWorkOrder (db (updateStatus e d i status)) i = Some wo
              \<and> status = Some (wo_status wo)"
  using assms by (cases status) (simp_all add: updateStatus_def Let_def find_saved)

lemma updateWorkOrder_completes:
  assumes "SmsFailureLogged \<in> set (trace (updateWorkOrder e d i reqBody))"
  shows "\<exists>wo. response (updateWorkOrder e d i reqBody) = Success 200 i wo
              \<and> findWorkOrder (db (updateWorkOrder e d i reqBody)) i = Some wo
              \<and> b_status reqBody = Some (wo_status wo)"
proof (cases "updateTotals d i (updateServices e reqBody)")
  case None
  then show ?thesis
    using assms updateWorkOrder_trace_fail [OF None] by simp
next
  case (Some r)
  obtain data evs where r: "r = (data, evs)"
    by (cases r)
  have t: "updateTotals d i (updateServices e reqBody) = Some (data, evs)"
    using Some r by simp
  have st: "b_status data = b_status reqBody"
    by (simp add: updateTotals_frame [OF t] updateServices_frame)
  have a: "SmsFailureLogged \<notin> set evs"
    using updateTotals_events [OF t] by auto
  have b: "SmsFailureLogged \<notin> set (snd (updateMileage e d i data))"
    using updateMileage_events [of e d i data] by auto
  have c: "SmsFailureLogged \<notin> set (writeEvents i x)" for x
    using writeEvents_set [of i x] by auto
  have n: "smsAttemptedOnUpdate d i data"
    using assms a b c unfolding updateWorkOrder_trace [OF t]
    by (cases "findWorkOrder d i") (simp_all split: if_splits)
  then obtain st old where s: "b_status reqBody = Some st" and o: "findWorkOrder d i = Some old"
    unfolding smsAttemptedOnUpdate_iff st by blast
  obtain wo where w: "response (updateWorkOrder e d i reqBody) = Success 200 i wo"
    and f: "findWorkOrder (db (updateWorkOrder e d i reqBody)) i = Some wo"
    using updateWorkOrder_found [OF o] by blast
  obtain data' existing where
    t': "updateTotals d i (updateServices e reqBody) = Some (data', evs)"
    and x: "wo = applyData (updateTechnician (fst (updateMileage e d i data')) data') existing"
    using updateWorkOrder_success(1) [OF w] t by auto
  have "wo_status wo = st"
    using s t t' by (simp add: x applyData_def updateTechnician_frame st setField_def)
  then show ?thesis
    using w f s by simp
qed

text \<open>
  Claim C6. When the SMS call throws, the write still completes: an update whose
  trace holds the logged failure answers 200 with the work order saved under its new
  status; a status update with a status and an existing work order answers 200 with
  the work order saved whatever the SMS service does; and for both handlers the
  response and the database are those of a run in which the service does not throw.
\<close>

theorem notification_failure_is_swallowed:
  "(SmsFailureLogged \<in> set (trace (updateWorkOrder e d i reqBody)) \<longrightarrow>
      (\<exists>wo. response (updateWorkOrder e d i reqBody) = Success 200 i wo
           \<and> findWorkOrder (db (updateWorkOrder e d i reqBody)) i = Some wo
           \<and> b_status reqBody = Some (wo_status wo)))
   \<and> (smsThrows e \<and> truthyStr status \<and> findWorkOrder d i \<noteq> None \<longrightarrow>
      (\<exists>wo. response (updateStatus e d i status) = Success 200 i wo
           \<and> findWorkOrder (db (updateStatus e d i status)) i = Some wo
           \<and> status = Some (wo_status wo)))
   \<and> response (updateWorkOrder e d i reqBody) = response (updateWorkOrder (e\<lparr>smsThrows := False\<rparr>) d i reqBody)
   \<and> db (updateWorkOrder e d i reqBody) = db (updateWorkOrder (e\<lparr>smsThrows := False\<rparr>) d i reqBody)
   \<and> response (updateStatus e d i status) = response (updateStatus (e\<lparr>smsThrows := False\<rparr>) d i status)
   \<and> db (updateStatus e d i status) = db (updateStatus (e\<lparr>smsThrows := False\<rparr>) d i status)"
proof (intro conjI impI)
  assume "SmsFailureLogged \<in> set (trace (updateWorkOrder e d i reqBody))"
  then show "\<exists>wo. response (updateWorkOrder e d i reqBody) = Success 200 i wo
           \<and> findWorkOrder (db (updateWorkOrder e d i reqBody)) i = Some wo
           \<and> b_status reqBody = Some (wo_status wo)"
    by (rule updateWorkOrder_completes)
next
  assume "smsThrows e \<and> truthyStr status \<and> findWorkOrder d i \<noteq> None"
  then obtain w where "truthyStr status" and "findWorkOrder d i = Some w"
    by auto
  then show "\<exists>wo. response (updateStatus e d i status) = Success 200 i wo
           \<and> findWorkOrder (db (updateStatus e d i status)) i = Some wo
           \<and> status = Some (wo_status wo)"
    by (rule updateStatus_completes)
qed (simp_all add: updateWorkOrder_smsThrows updateStatus_smsThrows)

theorem notification_failure_is_swallowed_witness:
  "smsThrows exEnv
   \<and> SmsFailureLogged \<in> set (trace (updateWorkOrder exEnv exDb ''w1'' pipelineBody))
   \<and> (\<exists>wo. response (updateWorkOrder exEnv exDb ''w1'' pipelineBody) = Success 200 ''w1'' wo
          \<and> findWorkOrder (db (updateWorkOrder exEnv exDb ''w1'' pipelineBody)) ''w1'' = Some wo
          \<and> wo_status wo = ''Parts Received'')
   \<and> (\<exists>wo. response (updateStatus exEnv exDb ''w1'' (Some ''Invoiced'')) = Success 200 ''w1'' wo
          \<and> findWorkOrder (db (updateStatus exEnv exDb ''w1'' (Some ''Invoiced''))) ''w1'' = Some wo
          \<and> wo_status wo = ''Invoiced'')"
proof -
  note t = notification_failure_is_swallowed [of exEnv exDb "''w1''" pipelineBody "Some ''Invoiced''"]
  have h0: "smsThrows exEnv"
    by (simp add: exEnv_def)
  have h1: "SmsFailureLogged \<in> set (trace (updateWorkOrder exEnv exDb ''w1'' pipelineBody))"
    by (simp add: ex_pipeline_trace)
  have h2: "smsThrows exEnv \<and> truthyStr (Some ''Invoiced'') \<and> findWorkOrder exDb ''w1'' \<noteq> None"
    by (simp add: h0 ex_w1)
  have s: "b_status pipelineBody = Some ''Parts Received''"
    by (simp add: pipelineBody_def emptyBody_def)
  obtain wo where a: "response (updateWorkOrder exEnv exDb ''w1'' pipelineBody) = Success 200 ''w1'' wo"
    "findWorkOrder (db (updateWorkOrder exEnv exDb ''w1'' pipelineBody)) ''w1'' = Some wo"
    "b_status pipelineBody = Some (wo_status wo)"
    using t [THEN conjunct1, THEN mp, OF h1] by (elim exE conjE) (rule that)
  obtain wo' where b: "response (updateStatus exEnv exDb ''w1'' (Some ''Invoiced'')) = Success 200 ''w1'' wo'"
    "findWorkOrder (db (updateStatus exEnv exDb ''w1'' (Some ''Invoiced''))) ''w1'' = Some wo'"
    "Some ''Invoiced'' = Some (wo_status wo')"
    using t [THEN conjunct2, THEN conjunct1, THEN mp, OF h2] by (elim exE conjE) (rule that)
  have "wo_status wo = ''Parts Received''" "wo_status wo' = ''Invoiced''"
    using a(3) b(3) s by simp_all
  then show ?thesis
    using h0 h1 a(1,2) b(1,2) by (intro conjI exI [of _ wo] exI [of _ wo'])
qed

subsection \<open>Totals\<close>

lemma linesTotal_cost: "linesTotal wo = partsCost (wo_parts wo) + laborCost (wo_labor wo)"
  by (simp add: linesTotal_def partsCost_sum laborCost_sum)





lemma createData_lines:
  "b_parts (createData e reqBody) = b_parts reqBody" "b_labor (createData e reqBody) = b_labor reqBody"
  by (simp_all add: createData_def create_frame)

lemma applyData_lines:
  "wo_parts (applyData data w) = setField (b_parts data) (wo_parts w)"
  "wo_labor (applyData data w) = setField (b_labor data) (wo_labor w)"
  "wo_totalEstimate (applyData data w) = setField (b_totalEstimate data) (wo_totalEstimate w)"
  by (simp_all add: applyData_def)











lemma ex_costs: "partsCost [exPart] = 10" "laborCost [exLabor] = 75" "partsCost [exPart, exPart] = 20"
  "laborCost [exLabor, exLabor] = 150"
  by (simp_all add: partsCost_def laborCost_def exPart_def exLabor_def)

lemma ex_created_fields:
  assumes "b_vehicle reqBody = Some ''v1''" and "b_customer reqBody = Some ''c1''"
  shows "findWorkOrder (db (createWorkOrder exEnv exDb reqBody)) ''w9'' =
           Some (applyData (createData exEnv reqBody) exDefaults)"
    and "wo_parts (applyData (createData exEnv reqBody) exDefaults) = setField (b_parts reqBody) []"
    and "wo_labor (applyData (createData exEnv reqBody) exDefaults) = setField (b_labor reqBody) []"
  by (simp_all add: ex_create_valid(2) [OF assms] findWorkOrder_saveVehicle find_saved
      applyData_lines createData_lines exDefaults_def)


lemma ex_lines_estimate: "b_totalEstimate (createData exEnv linesBody) = Some 10"
proof -
  let ?x = "createServiceRequested (createServices exEnv linesBody)"
  have f: "b_totalEstimate ?x = None" "b_parts ?x = Some [exPart]" "b_labor ?x = Some [exLabor]"
    by (simp_all add: createServiceRequested_frame createServices_frame linesBody_def
        createBody_def emptyBody_def)
  have p: "createPartsTotal ?x = ?x\<lparr>b_totalEstimate := Some 10\<rparr>"
    by (simp add: createPartsTotal_def f ex_costs)
  show ?thesis
    by (simp add: createData_def createLaborTotal_def p f)
qed

text \<open>
  A work order created with both parts and labor and no estimate: the labor block
  finds the estimate already set by the parts block and adds nothing.
\<close>

lemma createWorkOrder_parts_and_labor_estimate:
  "map_option wo_totalEstimate (findWorkOrder (db (createWorkOrder exEnv exDb linesBody)) ''w9'') = Some 10
   \<and> map_option linesTotal (findWorkOrder (db (createWorkOrder exEnv exDb linesBody)) ''w9'') = Some 85"
proof -
  have b: "b_vehicle linesBody = Some ''v1''" "b_customer linesBody = Some ''c1''"
    "b_parts linesBody = Some [exPart]" "b_labor linesBody = Some [exLabor]"
    by (simp_all add: linesBody_def createBody_def emptyBody_def)
  show ?thesis
    by (simp add: ex_created_fields [OF b(1,2)] linesTotal_cost applyData_lines ex_lines_estimate
        createData_lines b setField_def ex_costs exDefaults_def)
qed



end
